theory Spec2Isabelle
  imports Main
begin

section \<open>Platform primitives used by the tracker\<close>

text \<open>
  The tracker is a React component (\<^verbatim>\<open>src/App.js\<close>) on top of the hook
  \<^verbatim>\<open>src/hooks/useLocalStorage.js\<close>. JavaScript strings are modelled as
  \<^typ>\<open>string\<close> (code units below 256), the small whole numbers the tracker counts
  with (day numbers, clock readings in milliseconds) as \<^typ>\<open>int\<close> and
  \<^typ>\<open>nat\<close>, objects used as dictionaries as maps of their own properties.
\<close>

subsection \<open>Numbers and strings\<close>

text \<open>\<^verbatim>\<open>Number.prototype.toString()\<close> on a whole number: its decimal digits.\<close>

function toString_nat :: "nat \<Rightarrow> string" where
  "toString_nat n =
     (if n < 10 then [''0123456789'' ! n]
      else toString_nat (n div 10) @ [''0123456789'' ! (n mod 10)])"
  by pat_completeness auto
termination
  by (relation "measure (\<lambda>n. n)") auto

declare toString_nat.simps [simp del]

definition toString :: "int \<Rightarrow> string" where
  "toString i = (if i < 0 then CHR ''-'' # toString_nat (nat (- i)) else toString_nat (nat i))"

text \<open>The operator \<^verbatim>\<open>%\<close>: the remainder takes the sign of the dividend.\<close>

definition js_rem :: "int \<Rightarrow> int \<Rightarrow> int" where
  "js_rem a b = sgn a * (\<bar>a\<bar> mod \<bar>b\<bar>)"

text \<open>Reading \<^verbatim>\<open>xs[i]\<close>: \<^verbatim>\<open>undefined\<close> (here \<open>None\<close>) outside the array.\<close>

definition array_get :: "'a list \<Rightarrow> int \<Rightarrow> 'a option" where
  "array_get xs i = (if 0 \<le> i \<and> i < int (length xs) then Some (xs ! nat i) else None)"

text \<open>
  \<^verbatim>\<open>String.prototype.trim()\<close> strips white space at both ends; among the code
  units below 256 these are 9 to 13, 32 and 160.
\<close>

definition is_ws :: "char \<Rightarrow> bool" where
  "is_ws c = ((of_char c :: nat) \<in> {9, 10, 11, 12, 13, 32, 160})"

definition trim :: "string \<Rightarrow> string" where
  "trim s = rev (dropWhile is_ws (rev (dropWhile is_ws s)))"

text \<open>\<^verbatim>\<open>s.split(c)\<close> for a one-character separator: always at least one piece.\<close>

fun js_split :: "char \<Rightarrow> string \<Rightarrow> string list" where
  "js_split c [] = [[]]"
| "js_split c (d # ds) =
     (if d = c then [] # js_split c ds
      else (d # hd (js_split c ds)) # tl (js_split c ds))"

text \<open>\<^verbatim>\<open>x || ''\<close> on a string that may be \<^verbatim>\<open>undefined\<close>.\<close>

definition or_empty :: "string option \<Rightarrow> string" where
  "or_empty x = (case x of None \<Rightarrow> [] | Some t \<Rightarrow> if t = [] then [] else t)"

subsection \<open>JSON text\<close>

text \<open>
  The values a slot can hold. \<open>JBigInt\<close> stands for a value that
  \<^verbatim>\<open>JSON.stringify\<close> refuses with a TypeError.
\<close>

datatype jsval =
    JNull
  | JBool bool
  | JNum int
  | JBigInt int
  | JStr string
  | JArr "jsval list"
  | JObj "(string \<times> jsval) list"







text \<open>
  \<^verbatim>\<open>JSON.parse\<close> on the texts of the scalar slots: \<^verbatim>\<open>null\<close>,
  \<^verbatim>\<open>true\<close>, \<^verbatim>\<open>false\<close> and whole-number literals; \<open>None\<close> is the
  SyntaxError. Texts of arrays and objects are outside this fragment.
\<close>

fun digits_value :: "nat \<Rightarrow> string \<Rightarrow> nat option" where
  "digits_value acc [] = Some acc"
| "digits_value acc (c # cs) =
     (let n = (of_char c :: nat) in
      if 48 \<le> n \<and> n \<le> 57 then digits_value (10 * acc + (n - 48)) cs else None)"

definition parse_digits :: "string \<Rightarrow> nat option" where
  "parse_digits s =
     (if s = [] then None
      else if hd s = CHR ''0'' \<and> tl s \<noteq> [] then None
      else digits_value 0 s)"

definition JSON_parse_scalar :: "string \<Rightarrow> jsval option" where
  "JSON_parse_scalar s =
     (if s = ''null'' then Some JNull
      else if s = ''true'' then Some (JBool True)
      else if s = ''false'' then Some (JBool False)
      else if s \<noteq> [] \<and> hd s = CHR ''-'' then map_option (\<lambda>n. JNum (- int n)) (parse_digits (tl s))
      else map_option (\<lambda>n. JNum (int n)) (parse_digits s))"

section \<open>The hook \<^verbatim>\<open>useLocalStorage\<close>\<close>

text \<open>
  One binding of the hook to a key: the React state \<^verbatim>\<open>storedValue\<close> (the
  in-memory mirror), \<^verbatim>\<open>window.localStorage\<close> (the durable medium) and what
  was written with \<^verbatim>\<open>console.error\<close>. \<^verbatim>\<open>JSON.parse\<close> and
  \<^verbatim>\<open>JSON.stringify\<close> are parameters: \<open>None\<close> is the exception they throw.
\<close>

datatype diagnostic = ErrorReading string | ErrorSetting string | ErrorSyncing

record 'v hook =
  storedValue :: 'v
  localStorage :: "string \<rightharpoonup> string"
  console :: "diagnostic list"

text \<open>
  The initial read (the initialiser of \<^verbatim>\<open>useState\<close>):
  \<^verbatim>\<open>item ? JSON.parse(item) : initialValue\<close> inside \<^verbatim>\<open>try\<close>;
  \<^verbatim>\<open>getItem\<close> gives \<^verbatim>\<open>null\<close> for an absent key, and the empty text
  is falsy too.
\<close>

definition useLocalStorage ::
  "(string \<Rightarrow> 'v option) \<Rightarrow> string \<Rightarrow> 'v \<Rightarrow> (string \<rightharpoonup> string) \<Rightarrow> 'v hook" where
  "useLocalStorage parse key initialValue items =
     (case items key of
        None \<Rightarrow> \<lparr>storedValue = initialValue, localStorage = items, console = []\<rparr>
      | Some item \<Rightarrow>
          if item = [] then \<lparr>storedValue = initialValue, localStorage = items, console = []\<rparr>
          else
            (case parse item of
               Some v \<Rightarrow> \<lparr>storedValue = v, localStorage = items, console = []\<rparr>
             | None \<Rightarrow>
                 \<lparr>storedValue = initialValue, localStorage = items,
                  console = [ErrorReading key]\<rparr>))"

text \<open>
  The listener of the event \<^verbatim>\<open>local-storage-update\<close>: re-reads the key and, when
  the item is truthy, sets the state to its parse.
\<close>

definition on_local_storage_update :: "(string \<Rightarrow> 'v option) \<Rightarrow> string \<Rightarrow> 'v hook \<Rightarrow> 'v hook" where
  "on_local_storage_update parse key h =
     (case localStorage h key of
        None \<Rightarrow> h
      | Some item \<Rightarrow>
          if item = [] then h
          else
            (case parse item of
               Some v \<Rightarrow> h\<lparr>storedValue := v\<rparr>
             | None \<Rightarrow> h\<lparr>console := console h @ [ErrorSyncing]\<rparr>))"

text \<open>
  \<^verbatim>\<open>setValue(value)\<close>: the argument is a value or a function of the previous
  value. In the order of the source: compute \<^verbatim>\<open>valueToStore\<close>, call
  \<^verbatim>\<open>setStoredValue\<close>, then \<^verbatim>\<open>setItem(key, JSON.stringify(valueToStore))\<close>,
  then dispatch the event; an exception on the way leaves what was done before it and logs.
\<close>

datatype 'v setter_arg = Value 'v | Updater "'v \<Rightarrow> 'v"

definition valueToStore :: "'v setter_arg \<Rightarrow> 'v hook \<Rightarrow> 'v" where
  "valueToStore value h = (case value of Updater f \<Rightarrow> f (storedValue h) | Value v \<Rightarrow> v)"

definition setValue ::
  "('v \<Rightarrow> string option) \<Rightarrow> (string \<Rightarrow> 'v option) \<Rightarrow> string \<Rightarrow> 'v setter_arg \<Rightarrow> 'v hook \<Rightarrow> 'v hook"
  where
  "setValue stringify parse key value h =
     (let h1 = h\<lparr>storedValue := valueToStore value h\<rparr> in
      case stringify (valueToStore value h) of
        None \<Rightarrow> h1\<lparr>console := console h1 @ [ErrorSetting key]\<rparr>
      | Some text \<Rightarrow>
          on_local_storage_update parse key
            (h1\<lparr>localStorage := (localStorage h1)(key \<mapsto> text)\<rparr>))"

section \<open>The tracker component\<close>

subsection \<open>State\<close>

text \<open>
  The form draft \<^verbatim>\<open>currentExercise\<close>, a logged entry (the draft's fields and an
  \<^verbatim>\<open>id\<close>), a template of the catalogue, and the slots of the component that the
  operations below read or write.
\<close>

record draft =
  name :: string
  weight :: string
  sets :: string
  reps :: string
  notes' :: string

record exercise_entry = draft +
  id' :: string

record template =
  exercise :: string
  setsReps :: string

record tracker =
  currentDayNumber :: int
  completedDays :: "int list"
  tasks :: "string \<rightharpoonup> bool"
  workouts :: "string \<rightharpoonup> exercise_entry list"
  currentExercise :: draft
  selectedDay :: int

definition task_names :: "string list" where
  "task_names = [''morningWorkout'', ''eveningWorkout'', ''diet'', ''water1'', ''water2'',
     ''water3'', ''water4'', ''progressPhoto'', ''reading'']"

definition default_tasks :: "string \<rightharpoonup> bool" where
  "default_tasks = map_of (map (\<lambda>t. (t, False)) task_names)"

definition blank_draft :: draft where
  "blank_draft = \<lparr>name = [], weight = [], sets = [], reps = [], notes' = []\<rparr>"

text \<open>The state of a first run: the defaults handed to the four hooks.\<close>

definition initial :: tracker where
  "initial = \<lparr>currentDayNumber = 1, completedDays = [], tasks = default_tasks,
     workouts = Map.empty, currentExercise = blank_draft, selectedDay = 1\<rparr>"

subsection \<open>Day progression\<close>

definition completeDay :: "tracker \<Rightarrow> tracker" where
  "completeDay s =
     (if currentDayNumber s \<notin> set (completedDays s) then
        s\<lparr>completedDays := completedDays s @ [currentDayNumber s],
          currentDayNumber := currentDayNumber s + 1\<rparr>
      else s)"

text \<open>
  The button \<^verbatim>\<open>Reset All Progress\<close> of the profile tab is rendered without an
  \<^verbatim>\<open>onClick\<close> handler: a click on it runs no code of the component.
\<close>

definition reset_all_progress_click :: "tracker \<Rightarrow> tracker" where
  "reset_all_progress_click s = s"

subsection \<open>Weekday of a challenge day\<close>

definition weekdays :: "string list" where
  "weekdays = [''Sunday'', ''Monday'', ''Tuesday'', ''Wednesday'', ''Thursday'', ''Friday'',
     ''Saturday'']"

text \<open>
  The effect that follows \<^verbatim>\<open>selectedDay\<close>; \<open>currentDay\<close> is
  \<^verbatim>\<open>new Date().getDay()\<close>, from 0 (Sunday) to 6.
\<close>

definition selectedWeekday :: "int \<Rightarrow> int \<Rightarrow> int \<Rightarrow> string option" where
  "selectedWeekday currentDay dayNumber day =
     (let dayDifference = day - dayNumber;
          newWeekdayIndex = js_rem (currentDay + dayDifference) 7;
          adjustedIndex = (if newWeekdayIndex < 0 then 7 + newWeekdayIndex else newWeekdayIndex)
      in array_get weekdays adjustedIndex)"

text \<open>
  The label of option \<open>i\<close> (from 0 to 74) of the day selector:
  \<^verbatim>\<open>weekdays[(currentDay + (i+1) - currentDayNumber) % 7]\<close>.
\<close>

definition daySelect_weekday :: "int \<Rightarrow> int \<Rightarrow> int \<Rightarrow> string option" where
  "daySelect_weekday currentDay dayNumber i =
     array_get weekdays (js_rem (currentDay + (i + 1) - dayNumber) 7)"

subsection \<open>Workout log\<close>

definition dayKey :: "int \<Rightarrow> string" where
  "dayKey day = ''day-'' @ toString day"

definition currentDayWorkouts :: "(string \<rightharpoonup> exercise_entry list) \<Rightarrow> string \<Rightarrow> exercise_entry list" where
  "currentDayWorkouts w k = (case w k of None \<Rightarrow> [] | Some es \<Rightarrow> es)"

text \<open>\<^verbatim>\<open>handleExerciseChange\<close> for the input named \<^verbatim>\<open>name\<close>.\<close>

definition handleExerciseChange_name :: "string \<Rightarrow> tracker \<Rightarrow> tracker" where
  "handleExerciseChange_name v s = s\<lparr>currentExercise := (currentExercise s)\<lparr>name := v\<rparr>\<rparr>"

text \<open>\<open>now\<close> is the reading of \<^verbatim>\<open>Date.now()\<close>.\<close>

definition addExercise :: "nat \<Rightarrow> tracker \<Rightarrow> tracker" where
  "addExercise now s =
     (if name (currentExercise s) = [] then s
      else
        (let k = dayKey (selectedDay s);
             d = currentExercise s
         in s\<lparr>workouts := (workouts s)(k \<mapsto> currentDayWorkouts (workouts s) k @
                 [\<lparr>name = name d, weight = weight d, sets = sets d, reps = reps d,
                   notes' = notes' d, id' = toString_nat now\<rparr>]),
              currentExercise := blank_draft\<rparr>))"

definition deleteExercise :: "string \<Rightarrow> string \<Rightarrow> tracker \<Rightarrow> tracker" where
  "deleteExercise k exerciseId s =
     (let updatedWorkouts = filter (\<lambda>ex. id' ex \<noteq> exerciseId) (currentDayWorkouts (workouts s) k)
      in s\<lparr>workouts := (workouts s)(k \<mapsto> updatedWorkouts)\<rparr>)"

text \<open>
  One element of the \<^verbatim>\<open>map\<close> in \<^verbatim>\<open>addAllFromTemplate\<close>; \<open>now\<close> and
  \<open>suffix\<close> are that element's readings of \<^verbatim>\<open>Date.now()\<close> and of
  \<^verbatim>\<open>Math.random().toString(36).substr(2, 9)\<close>.
\<close>

definition piece :: "string list \<Rightarrow> nat \<Rightarrow> string option" where
  "piece ps i = (if i < length ps then Some (ps ! i) else None)"

definition template_entry :: "nat \<times> string \<Rightarrow> template \<Rightarrow> exercise_entry" where
  "template_entry env ex =
     \<lparr>name = exercise ex, weight = [],
      sets = or_empty (map_option trim (piece (js_split CHR ''x'' (setsReps ex)) 0)),
      reps = or_empty (map_option trim (piece (js_split CHR ''x'' (setsReps ex)) 1)),
      notes' = [],
      id' = ''template-'' @ toString_nat (fst env) @ ''-'' @ snd env\<rparr>"

definition addAllFromTemplate :: "(nat \<Rightarrow> nat \<times> string) \<Rightarrow> template list \<Rightarrow> tracker \<Rightarrow> tracker" where
  "addAllFromTemplate env exercises s =
     (if exercises = [] then s
      else
        (let k = dayKey (selectedDay s);
             newExercises = map (\<lambda>(i, ex). template_entry (env i) ex) (enumerate 0 exercises)
         in s\<lparr>workouts := (workouts s)(k \<mapsto> currentDayWorkouts (workouts s) k @ newExercises)\<rparr>))"

subsection \<open>Scenarios\<close>

text \<open>
  Two exercises added while \<^verbatim>\<open>Date.now()\<close> reads the same millisecond (as it does
  under the test helper \<^verbatim>\<open>mockDate\<close> of \<^verbatim>\<open>setupTests.js\<close>), a hook
  bound to the day counter, and two pieces of the catalogue
  \<^verbatim>\<open>src/data/workoutData.js\<close>: Saturday's list of
  \<^verbatim>\<open>workoutPlan.weightTraining\<close>, which the button \<^verbatim>\<open>Add All to Tracking\<close>
  hands to \<^verbatim>\<open>addAllFromTemplate\<close> on a Saturday, and the last template of Monday's
  list.
\<close>

definition same_instant_log :: tracker where
  "same_instant_log =
     addExercise 1700000000000 (handleExerciseChange_name ''Lunge''
       (addExercise 1700000000000 (handleExerciseChange_name ''Squat'' initial)))"


definition saturday_exercises :: "template list" where
  "saturday_exercises =
     [\<lparr>exercise = ''Light Dumbbell Curls'', setsReps = ''2 x 15''\<rparr>,
      \<lparr>exercise = ''Lateral Band Walks'', setsReps = ''2 x 20 steps''\<rparr>,
      \<lparr>exercise = ''Stability Ball Crunches'', setsReps = ''2 x 15''\<rparr>,
      \<lparr>exercise = ''Resistance Band Rows'', setsReps = ''2 x 15''\<rparr>,
      \<lparr>exercise = ''Deep Stretch/Yoga Flow'', setsReps = ''15 min''\<rparr>]"

definition push_ups_finisher :: template where
  "push_ups_finisher = \<lparr>exercise = ''Push-Ups (Finisher)'', setsReps = ''2 x Max''\<rparr>"

section \<open>Day progression: the ledger\<close>

lemma completeDay_step:
  assumes "currentDayNumber s = int k + 1" and "completedDays s = [1..int k]"
  shows "currentDayNumber (completeDay s) = int (Suc k) + 1 \<and>
         completedDays (completeDay s) = [1..int (Suc k)]"
proof -
  have fresh: "currentDayNumber s \<notin> set (completedDays s)"
    using assms by simp
  have "[1..int k] @ [int k + 1] = [1..int k + 1]"
    by (simp add: upto_rec2)
  with fresh assms show ?thesis
    by (simp add: completeDay_def add.commute)
qed

lemma completeDay_iterated:
  "currentDayNumber ((completeDay ^^ k) initial) = int k + 1 \<and>
   completedDays ((completeDay ^^ k) initial) = [1..int k]"
proof (induction k)
  case 0
  show ?case by (simp add: initial_def)
next
  case (Suc k)
  then show ?case
    using completeDay_step [of "(completeDay ^^ k) initial" k] by simp
qed

text \<open>
  C1. Starting from the initial state, \<open>k\<close> calls of \<^verbatim>\<open>completeDay()\<close> in a row
  are all successful (each finds the current day not yet in the ledger), and after them
  \<^verbatim>\<open>currentDayNumber\<close> is \<open>k + 1\<close> and \<^verbatim>\<open>completedDays\<close> is the list
  \<open>1, \<dots>, k\<close>: as a set \<open>{1, \<dots>, k}\<close>, that is
  \<open>{1, \<dots>, currentDayNumber - 1}\<close>, without gaps and without duplicates.
\<close>

theorem completeDay_k_times:
  "(\<forall>j<k. currentDayNumber ((completeDay ^^ j) initial)
             \<notin> set (completedDays ((completeDay ^^ j) initial))) \<and>
   currentDayNumber ((completeDay ^^ k) initial) = int k + 1 \<and>
   completedDays ((completeDay ^^ k) initial) = [1..int k] \<and>
   set (completedDays ((completeDay ^^ k) initial)) = {1..int k} \<and>
   distinct (completedDays ((completeDay ^^ k) initial)) \<and>
   set (completedDays ((completeDay ^^ k) initial))
     = {1..currentDayNumber ((completeDay ^^ k) initial) - 1}"
  by (simp add: completeDay_iterated)

theorem completeDay_k_times_witness:
  "currentDayNumber (completeDay (completeDay (completeDay initial))) = 4 \<and>
   completedDays (completeDay (completeDay (completeDay initial))) = [1, 2, 3] \<and>
   currentDayNumber (completeDay (completeDay initial))
     \<notin> set (completedDays (completeDay (completeDay initial)))"
proof -
  note t = completeDay_k_times [of 3]
  have "(2::nat) < 3" by simp
  with t have "currentDayNumber ((completeDay ^^ 2) initial)
      \<notin> set (completedDays ((completeDay ^^ 2) initial))"
    by blast
  then show ?thesis
    using t by (simp add: numeral_2_eq_2 numeral_3_eq_3 upto_rec1)
qed

text \<open>
  C3. In a state whose \<^verbatim>\<open>currentDayNumber\<close> is already in
  \<^verbatim>\<open>completedDays\<close>, \<^verbatim>\<open>completeDay()\<close> changes nothing: the day number,
  the ledger and the task set (indeed the whole state) are as before.
\<close>

theorem completeDay_already_completed:
  "currentDayNumber s \<in> set (completedDays s) \<Longrightarrow>
   currentDayNumber (completeDay s) = currentDayNumber s \<and>
   completedDays (completeDay s) = completedDays s \<and>
   tasks (completeDay s) = tasks s \<and>
   completeDay s = s"
  by (simp add: completeDay_def)

theorem completeDay_already_completed_witness:
  "currentDayNumber (initial\<lparr>completedDays := [1]\<rparr>)
     \<in> set (completedDays (initial\<lparr>completedDays := [1]\<rparr>)) \<and>
   completeDay (initial\<lparr>completedDays := [1]\<rparr>) = initial\<lparr>completedDays := [1]\<rparr>"
  using completeDay_already_completed [of "initial\<lparr>completedDays := [1]\<rparr>"]
  by (simp add: initial_def)

text \<open>
  C5. The claim: one operation resets the day number, the ledger and the task set to
  their defaults. The only reset control of the component is the button
  \<^verbatim>\<open>Reset All Progress\<close>, which has no handler: after one completed day a click on
  it leaves the day number at 2 and the ledger at \<open>[1]\<close>, not at the defaults 1 and
  \<open>[]\<close>.
\<close>

theorem reset_all_progress_click_inert:
  "currentDayNumber (reset_all_progress_click (completeDay initial)) = 2 \<and>
   completedDays (reset_all_progress_click (completeDay initial)) = [1] \<and>
   currentDayNumber initial = 1 \<and> completedDays initial = []"
  by (simp add: reset_all_progress_click_def completeDay_def initial_def)

section \<open>Weekday of a challenge day\<close>

lemma length_weekdays: "length weekdays = 7"
  by (simp add: weekdays_def)

lemma adjusted_index:
  "(if js_rem a 7 < 0 then 7 + js_rem a 7 else js_rem a 7) = a mod 7"
  unfolding js_rem_def sgn_if
  by (auto simp: zmod_zminus1_eq_if)

lemma selectedWeekday_eq:
  "selectedWeekday c d n = Some (weekdays ! nat ((c + (n - d)) mod 7))"
  by (simp add: selectedWeekday_def Let_def adjusted_index array_get_def weekdays_def)

text \<open>
  The effect that follows the selected day normalises a negative remainder: its weekday
  has period 7, is always one of the seven names, and is today's weekday for the current
  day number.
\<close>

lemma selectedWeekday_properties:
  "selectedWeekday c d (n + 7) = selectedWeekday c d n \<and>
   (\<exists>w \<in> set weekdays. selectedWeekday c d n = Some w) \<and>
   (0 \<le> c \<and> c < 7 \<longrightarrow> selectedWeekday c d d = array_get weekdays c)"
proof -
  have "(c + (n + 7 - d)) mod 7 = (c + (n - d) + 7) mod 7"
    by (simp add: algebra_simps)
  then have "(c + (n + 7 - d)) mod 7 = (c + (n - d)) mod 7"
    by (simp only: mod_add_self2)
  moreover have "nat ((c + (n - d)) mod 7) < length weekdays"
    by (simp add: length_weekdays nat_less_iff)
  ultimately show ?thesis
    by (auto simp: selectedWeekday_eq array_get_def length_weekdays)
qed

text \<open>
  C8. The claim: the weekday of day \<open>n\<close> has period 7 and is always a valid weekday
  name, a negative remainder being normalised by adding 7. The labels of the day selector
  compute the same index without that normalisation: on a Sunday (\<open>currentDay = 0\<close>)
  with \<open>currentDayNumber = 5\<close>, the label of day 1 reads \<^verbatim>\<open>weekdays[-4]\<close>, which
  is \<^verbatim>\<open>undefined\<close>, while the effect gives Wednesday for day 1 and the selector
  gives Wednesday for day 8.
\<close>

theorem daySelect_weekday_undefined:
  "daySelect_weekday 0 5 0 = None \<and> selectedWeekday 0 5 1 = Some ''Wednesday'' \<and>
   daySelect_weekday 0 5 7 = Some ''Wednesday''"
  by (simp add: daySelect_weekday_def selectedWeekday_def js_rem_def array_get_def weekdays_def)

section \<open>The hook: reads and writes\<close>

text \<open>
  C9. Reading a key that is absent from \<^verbatim>\<open>localStorage\<close>, or whose text
  \<^verbatim>\<open>JSON.parse\<close> rejects, gives the default value and leaves
  \<^verbatim>\<open>localStorage\<close> as it was: the default is not written back.
\<close>

theorem useLocalStorage_absent_or_corrupted:
  "items key = None \<or> (\<exists>item. items key = Some item \<and> parse item = None) \<Longrightarrow>
   storedValue (useLocalStorage parse key initialValue items) = initialValue \<and>
   localStorage (useLocalStorage parse key initialValue items) = items"
  by (auto simp: useLocalStorage_def split: option.splits)

lemma JSON_parse_scalar_corrupted: "JSON_parse_scalar ''{bad'' = None"
  by (simp add: JSON_parse_scalar_def parse_digits_def)

theorem useLocalStorage_absent_or_corrupted_witness:
  "storedValue (useLocalStorage JSON_parse_scalar ''currentDayNumber'' (JNum 1) Map.empty) = JNum 1 \<and>
   localStorage (useLocalStorage JSON_parse_scalar ''currentDayNumber'' (JNum 1) Map.empty)
     = Map.empty \<and>
   JSON_parse_scalar ''{bad'' = None \<and>
   storedValue (useLocalStorage JSON_parse_scalar ''currentDayNumber'' (JNum 1)
     [''currentDayNumber'' \<mapsto> ''{bad'']) = JNum 1 \<and>
   localStorage (useLocalStorage JSON_parse_scalar ''currentDayNumber'' (JNum 1)
     [''currentDayNumber'' \<mapsto> ''{bad'']) = [''currentDayNumber'' \<mapsto> ''{bad'']"
proof -
  have absent: "(Map.empty :: string \<rightharpoonup> string) ''currentDayNumber'' = None
      \<or> (\<exists>item. (Map.empty :: string \<rightharpoonup> string) ''currentDayNumber'' = Some item
            \<and> JSON_parse_scalar item = None)"
    by simp
  have corrupted: "[''currentDayNumber'' \<mapsto> ''{bad''] ''currentDayNumber'' = None
      \<or> (\<exists>item. [''currentDayNumber'' \<mapsto> ''{bad''] ''currentDayNumber'' = Some item
            \<and> JSON_parse_scalar item = None)"
    by (simp add: JSON_parse_scalar_corrupted)
  show ?thesis
    using
      useLocalStorage_absent_or_corrupted [where items = Map.empty
        and key = "''currentDayNumber''" and parse = JSON_parse_scalar
        and initialValue = "JNum 1", OF absent]
      useLocalStorage_absent_or_corrupted [where items = "[''currentDayNumber'' \<mapsto> ''{bad'']"
        and key = "''currentDayNumber''" and parse = JSON_parse_scalar
        and initialValue = "JNum 1", OF corrupted]
      JSON_parse_scalar_corrupted
    by (simp only: simp_thms)
qed

text \<open>
  A write whose text parses back to the value stored leaves the mirror at that value and
  the text in \<^verbatim>\<open>localStorage\<close>; the setters of the component are such writes.
\<close>

lemma setValue_round_trip:
  "stringify (valueToStore value h) = Some text \<Longrightarrow>
   parse text = Some (valueToStore value h) \<Longrightarrow>
   storedValue (setValue stringify parse key value h) = valueToStore value h \<and>
   localStorage (setValue stringify parse key value h) = (localStorage h)(key \<mapsto> text)"
  by (simp add: setValue_def on_local_storage_update_def Let_def)




section \<open>Workout log\<close>

lemma dayKey_1: "dayKey 1 = ''day-1''"
  by (simp add: dayKey_def toString_def toString_nat.simps)

lemma same_instant_log_entries:
  "workouts same_instant_log ''day-1'' =
     Some [\<lparr>name = ''Squat'', weight = [], sets = [], reps = [], notes' = [],
            id' = toString_nat 1700000000000\<rparr>,
           \<lparr>name = ''Lunge'', weight = [], sets = [], reps = [], notes' = [],
            id' = toString_nat 1700000000000\<rparr>]"
  by (simp add: same_instant_log_def addExercise_def handleExerciseChange_name_def initial_def
      blank_draft_def dayKey_1 currentDayWorkouts_def Let_def)

text \<open>
  C4. The claim: every added entry gets an identifier that no other entry has, also when
  two are added in the same instant, thanks to a random suffix. \<^verbatim>\<open>addExercise\<close>
  takes \<^verbatim>\<open>Date.now().toString()\<close> alone (the random suffix is only in
  \<^verbatim>\<open>addAllFromTemplate\<close>): two exercises added at the same clock reading are both
  appended, in order, with the same identifier.
\<close>

theorem addExercise_same_instant_ids:
  "map id' (currentDayWorkouts (workouts same_instant_log) ''day-1'')
     = [''1700000000000'', ''1700000000000''] \<and>
   map name (currentDayWorkouts (workouts same_instant_log) ''day-1'') = [''Squat'', ''Lunge''] \<and>
   \<not> distinct (map id' (currentDayWorkouts (workouts same_instant_log) ''day-1''))"
  by (simp add: same_instant_log_entries currentDayWorkouts_def toString_nat.simps)

lemma length_filter_split:
  "length (filter (\<lambda>x. f x \<noteq> i) xs) + length (filter (\<lambda>x. f x = i) xs) = length xs"
  by (induction xs) auto

lemma distinct_filter_one:
  "distinct (map f xs) \<Longrightarrow> i \<in> set (map f xs) \<Longrightarrow> length (filter (\<lambda>x. f x = i) xs) = 1"
proof (induction xs)
  case Nil
  then show ?case by simp
next
  case (Cons x xs)
  show ?case
  proof (cases "f x = i")
    case True
    with Cons.prems have "i \<notin> f ` set xs" by auto
    then have "filter (\<lambda>x. f x = i) xs = []"
      by (auto simp: filter_empty_conv)
    with True show ?thesis by simp
  next
    case False
    with Cons show ?thesis by auto
  qed
qed

text \<open>
  On a day whose identifiers are pairwise distinct, \<^verbatim>\<open>deleteExercise\<close> takes
  exactly one entry away when the identifier is present and leaves the sequence as it is
  when the identifier is absent.
\<close>

lemma deleteExercise_distinct_ids:
  assumes "distinct (map id' (currentDayWorkouts (workouts s) k))"
  shows "(i \<in> set (map id' (currentDayWorkouts (workouts s) k)) \<longrightarrow>
      length (currentDayWorkouts (workouts (deleteExercise k i s)) k) + 1
        = length (currentDayWorkouts (workouts s) k)) \<and>
   (i \<notin> set (map id' (currentDayWorkouts (workouts s) k)) \<longrightarrow>
      currentDayWorkouts (workouts (deleteExercise k i s)) k = currentDayWorkouts (workouts s) k)"
proof -
  let ?old = "currentDayWorkouts (workouts s) k"
  have new: "currentDayWorkouts (workouts (deleteExercise k i s)) k
      = filter (\<lambda>ex. id' ex \<noteq> i) ?old"
    by (simp add: deleteExercise_def currentDayWorkouts_def)
  have count: "length (filter (\<lambda>ex. id' ex \<noteq> i) ?old)
      + length (filter (\<lambda>ex. id' ex = i) ?old) = length ?old"
    by (rule length_filter_split)
  have one: "i \<in> set (map id' ?old) \<longrightarrow>
      length (filter (\<lambda>ex. id' ex \<noteq> i) ?old) + 1 = length ?old"
    using assms count distinct_filter_one [of id' ?old i] by auto
  have none: "i \<notin> set (map id' ?old) \<longrightarrow> filter (\<lambda>ex. id' ex \<noteq> i) ?old = ?old"
    by (auto simp: filter_id_conv)
  show ?thesis
    unfolding new using one none by blast
qed

text \<open>
  C6. The claim: \<^verbatim>\<open>deleteExercise(dayKey, id)\<close> decreases the day's entry count by
  exactly 1 when an entry with that identifier is present. In the log of the two exercises
  added in the same instant both entries carry the identifier \<^verbatim>\<open>1700000000000\<close>
  (the identifiers of \<^verbatim>\<open>addExercise\<close> are not unique), and deleting it takes the
  day's entry count from 2 to 0.
\<close>

theorem deleteExercise_same_instant_ids:
  "length (currentDayWorkouts (workouts same_instant_log) ''day-1'') = 2 \<and>
   ''1700000000000'' \<in> set (map id' (currentDayWorkouts (workouts same_instant_log) ''day-1'')) \<and>
   length (currentDayWorkouts
     (workouts (deleteExercise ''day-1'' ''1700000000000'' same_instant_log)) ''day-1'') = 0"
  by (simp add: same_instant_log_entries currentDayWorkouts_def deleteExercise_def
      toString_nat.simps)

text \<open>
  C10. Deleting from a day that the map does not contain stores a map in which the day is
  bound to the empty sequence; every other day is as before, so the stored map differs
  from the old one by exactly that new key.
\<close>

theorem deleteExercise_absent_day:
  "workouts s k = None \<Longrightarrow>
   workouts (deleteExercise k i s) k = Some [] \<and>
   (\<forall>k'. k' \<noteq> k \<longrightarrow> workouts (deleteExercise k i s) k' = workouts s k') \<and>
   dom (workouts (deleteExercise k i s)) = insert k (dom (workouts s)) \<and>
   workouts (deleteExercise k i s) \<noteq> workouts s"
proof -
  assume a: "workouts s k = None"
  have w: "workouts (deleteExercise k i s) = (workouts s)(k \<mapsto> [])"
    using a by (simp add: deleteExercise_def currentDayWorkouts_def)
  have "(workouts s)(k \<mapsto> []) \<noteq> workouts s"
    using a by (metis fun_upd_same option.distinct(1))
  with w show ?thesis by simp
qed

theorem deleteExercise_absent_day_witness:
  "workouts initial ''day-1'' = None \<and>
   workouts (deleteExercise ''day-1'' ''1700000000000'' initial) ''day-1'' = Some [] \<and>
   workouts (deleteExercise ''day-1'' ''1700000000000'' initial) ''day-2'' = workouts initial ''day-2''"
proof -
  have a: "workouts initial ''day-1'' = None" by (simp add: initial_def)
  note t = deleteExercise_absent_day [OF a, of "''1700000000000''"]
  from t have "\<forall>k'. k' \<noteq> ''day-1'' \<longrightarrow>
      workouts (deleteExercise ''day-1'' ''1700000000000'' initial) k' = workouts initial k'"
    by (rule conjunct1 [OF conjunct2])
  then have "workouts (deleteExercise ''day-1'' ''1700000000000'' initial) ''day-2''
      = workouts initial ''day-2''"
    by simp
  with a t show ?thesis
    by (simp only: simp_thms)
qed

subsection \<open>Templates\<close>

lemma js_split_no_separator: "c \<notin> set s \<Longrightarrow> js_split c s = [s]"
  by (induction s) auto

lemma trim_examples:
  "trim ''2 '' = ''2''" "trim '' 15'' = ''15''" "trim '' 20 steps'' = ''20 steps''"
  "trim ''15 min'' = ''15 min''" "trim '' Ma'' = ''Ma''" "trim ''3 '' = ''3''"
  "trim '' 45 sec'' = ''45 sec''"
  by (simp_all add: trim_def is_ws_def)

lemma template_entry_no_separator:
  "CHR ''x'' \<notin> set (setsReps ex) \<Longrightarrow>
   sets (template_entry e ex) = trim (setsReps ex) \<and> reps (template_entry e ex) = []"
  by (simp add: template_entry_def js_split_no_separator piece_def or_empty_def)

text \<open>The example of the specification: \<^verbatim>\<open>3 x 45 sec\<close>.\<close>

lemma template_entry_example:
  "sets (template_entry e \<lparr>exercise = n, setsReps = ''3 x 45 sec''\<rparr>) = ''3'' \<and>
   reps (template_entry e \<lparr>exercise = n, setsReps = ''3 x 45 sec''\<rparr>) = ''45 sec''"
  by (simp add: template_entry_def piece_def or_empty_def trim_examples)

text \<open>One entry per template is appended, in order; an empty list changes nothing.\<close>

lemma addAllFromTemplate_day:
  "currentDayWorkouts (workouts (addAllFromTemplate env exercises s)) (dayKey (selectedDay s))
     = currentDayWorkouts (workouts s) (dayKey (selectedDay s))
       @ map (\<lambda>(i, ex). template_entry (env i) ex) (enumerate 0 exercises)"
  by (simp add: addAllFromTemplate_def currentDayWorkouts_def Let_def)

lemma saturday_entries:
  "map (\<lambda>(i, ex). template_entry (env i) ex) (enumerate 0 saturday_exercises) =
     [template_entry (env 0) \<lparr>exercise = ''Light Dumbbell Curls'', setsReps = ''2 x 15''\<rparr>,
      template_entry (env 1) \<lparr>exercise = ''Lateral Band Walks'', setsReps = ''2 x 20 steps''\<rparr>,
      template_entry (env 2) \<lparr>exercise = ''Stability Ball Crunches'', setsReps = ''2 x 15''\<rparr>,
      template_entry (env 3) \<lparr>exercise = ''Resistance Band Rows'', setsReps = ''2 x 15''\<rparr>,
      template_entry (env 4) \<lparr>exercise = ''Deep Stretch/Yoga Flow'', setsReps = ''15 min''\<rparr>]"
  by (simp add: saturday_exercises_def eval_nat_numeral)

text \<open>
  C7. The claim: each template's text is split into its sets and its reps, and a text
  that is not of the form \<open>N x M\<close> gives the empty string for both.
  \<^verbatim>\<open>addAllFromTemplate\<close> takes the pieces of \<^verbatim>\<open>setsReps.split('x')\<close> whatever
  the text is. Saturday's list of the catalogue ends with the text \<^verbatim>\<open>15 min\<close>: the
  batch of five is added, and the fifth entry has \<^verbatim>\<open>sets = 15 min\<close>, not the empty
  string. Monday's \<^verbatim>\<open>2 x Max\<close> is split at the letter inside \<^verbatim>\<open>Max\<close> as
  well and gets \<^verbatim>\<open>reps = Ma\<close>.
\<close>

theorem addAllFromTemplate_saturday:
  "map name (currentDayWorkouts (workouts (addAllFromTemplate
     (\<lambda>i. (1700000000000, ''k3j9w0q2a'')) saturday_exercises initial)) ''day-1'')
     = [''Light Dumbbell Curls'', ''Lateral Band Walks'', ''Stability Ball Crunches'',
        ''Resistance Band Rows'', ''Deep Stretch/Yoga Flow''] \<and>
   map sets (currentDayWorkouts (workouts (addAllFromTemplate
     (\<lambda>i. (1700000000000, ''k3j9w0q2a'')) saturday_exercises initial)) ''day-1'')
     = [''2'', ''2'', ''2'', ''2'', ''15 min''] \<and>
   map reps (currentDayWorkouts (workouts (addAllFromTemplate
     (\<lambda>i. (1700000000000, ''k3j9w0q2a'')) saturday_exercises initial)) ''day-1'')
     = [''15'', ''20 steps'', ''15'', ''15'', []] \<and>
   sets (template_entry (1700000000000, ''k3j9w0q2a'') push_ups_finisher) = ''2'' \<and>
   reps (template_entry (1700000000000, ''k3j9w0q2a'') push_ups_finisher) = ''Ma''"
proof -
  have day: "dayKey (selectedDay initial) = ''day-1''"
    by (simp add: initial_def dayKey_1)
  have before: "currentDayWorkouts (workouts initial) ''day-1'' = []"
    by (simp add: initial_def currentDayWorkouts_def)
  have after: "currentDayWorkouts (workouts (addAllFromTemplate
      (\<lambda>i. (1700000000000, ''k3j9w0q2a'')) saturday_exercises initial)) ''day-1''
      = map (\<lambda>(i, ex). template_entry (1700000000000, ''k3j9w0q2a'') ex)
          (enumerate 0 saturday_exercises)"
    using addAllFromTemplate_day [of "\<lambda>i. (1700000000000, ''k3j9w0q2a'')"
        saturday_exercises initial]
    by (simp add: day before)
  show ?thesis
    unfolding after saturday_entries
    by (simp add: template_entry_def push_ups_finisher_def piece_def or_empty_def
        trim_examples)
qed

end
